theory Spec2Isabelle
  imports Complex_Main "HOL-Library.Sublist"
begin

section \<open>Retrieval, selection and citation pipeline of the RAG assistant\<close>

text \<open>
  A shallow embedding of \<^verbatim>\<open>app/services/chroma_repository.py\<close> and
  \<^verbatim>\<open>app/services/rag_service.py\<close>, with the configuration values of
  \<^verbatim>\<open>app/core/config.py\<close> and the models of \<^verbatim>\<open>app/models/schemas.py\<close>.

  Conventions of the embedding:
  \<^item> Python \<^verbatim>\<open>int\<close> is \<open>int\<close>; positions produced by \<^verbatim>\<open>enumerate\<close> and
    \<^verbatim>\<open>range\<close> are \<open>nat\<close>; \<^verbatim>\<open>len(xs)\<close> is \<open>int (length xs)\<close> where it is
    compared with a configured \<^verbatim>\<open>int\<close>.
  \<^item> Python \<^verbatim>\<open>float\<close> is \<open>real\<close>: rounding and the special values (NaN, infinities)
    are outside the embedding.
  \<^item> Python \<^verbatim>\<open>str\<close> is \<open>string\<close>, one list element per code point, so that
    \<^verbatim>\<open>len(chunk.text)\<close> is \<open>length (chunk_text c)\<close>.
  \<^item> Logging is left out: it does not influence any returned value.
  \<^item> An exception is a value \<open>Inl e\<close> of \<open>error + 'a\<close>.
\<close>

subsection \<open>Configuration\<close>

record settings =
  retrieval_default_top_k :: int
  retrieval_max_k :: int
  retrieval_min_score :: real
  max_context_characters :: int

text \<open>The defaults of the \<^verbatim>\<open>Settings\<close> class.\<close>

definition default_settings :: settings where
  "default_settings =
     \<lparr> retrieval_default_top_k = 8,
       retrieval_max_k = 12,
       retrieval_min_score = 3 / 10,
       max_context_characters = 6000 \<rparr>"

subsection \<open>Errors\<close>

text \<open>
  \<open>ChromaUnavailableError\<close> is the exception class of \<^verbatim>\<open>app/services/exceptions.py\<close>.
  \<open>IndexError\<close> is what Python raises for \<^verbatim>\<open>xs[0]\<close> on an empty list, and
  \<open>ValidationError\<close> what the \<^verbatim>\<open>SourceChunk\<close> model raises when a field violates
  its declared bounds (\<^verbatim>\<open>score\<close> in \<open>[0, 1]\<close>, \<^verbatim>\<open>rank \<ge> 1\<close>).
\<close>

datatype error = ChromaUnavailableError string | IndexError | ValidationError

subsection \<open>Models\<close>

text \<open>Scalar metadata values as stored by the vector store.\<close>

datatype meta_value = MStr string | MInt int | MFloat real | MBool bool

type_synonym metadata_dict = "string \<rightharpoonup> meta_value"

text \<open>\<^verbatim>\<open>InternalChunk\<close>: fields \<^verbatim>\<open>id\<close>, \<^verbatim>\<open>text\<close>, \<^verbatim>\<open>score\<close>, \<^verbatim>\<open>metadata\<close>.\<close>

record internal_chunk =
  chunk_id :: string
  chunk_text :: string
  score :: real
  metadata :: metadata_dict

text \<open>
  \<^verbatim>\<open>SourceChunk\<close>. The field \<open>source\<close> holds the value handed to the constructor
  (\<open>None\<close> for Python's \<^verbatim>\<open>None\<close>).
\<close>

record source_chunk =
  source_id :: string
  citation_id :: nat
  source_score :: real
  source :: "meta_value option"
  rank :: nat
  source_text :: string
  source_metadata :: metadata_dict

text \<open>\<^verbatim>\<open>QueryRequest\<close>: fields \<^verbatim>\<open>question\<close> and \<^verbatim>\<open>max_sources\<close>.\<close>

record query_request =
  request_question :: string
  request_max_sources :: "int option"

record query_response =
  answer :: string
  sources :: "source_chunk list"

text \<open>
  The constructor of \<^verbatim>\<open>SourceChunk\<close> with the validation of its field constraints
  \<^verbatim>\<open>score: ge=0.0, le=1.0\<close> and \<^verbatim>\<open>rank: ge=1\<close>.
\<close>

definition SourceChunk ::
  "string \<Rightarrow> nat \<Rightarrow> real \<Rightarrow> meta_value option \<Rightarrow> nat \<Rightarrow> string \<Rightarrow> metadata_dict
     \<Rightarrow> error + source_chunk" where
  "SourceChunk i cid sc src rk txt md =
     (if 0 \<le> sc \<and> sc \<le> 1 \<and> 1 \<le> rk
      then Inr \<lparr> source_id = i, citation_id = cid, source_score = sc, source = src,
                 rank = rk, source_text = txt, source_metadata = md \<rparr>
      else Inl ValidationError)"

subsection \<open>Built-ins used by the code\<close>

text \<open>\<^verbatim>\<open>str(n)\<close> for a non-negative integer: its decimal digits.\<close>

definition digit_char :: "nat \<Rightarrow> char" where
  "digit_char d = ''0123456789'' ! d"

fun str_nat :: "nat \<Rightarrow> string" where
  "str_nat n = (if n < 10 then [digit_char n] else str_nat (n div 10) @ [digit_char (n mod 10)])"

declare str_nat.simps [simp del]

text \<open>\<^verbatim>\<open>sep.join(xs)\<close>.\<close>

fun join :: "string \<Rightarrow> string list \<Rightarrow> string" where
  "join sep [] = []"
| "join sep [x] = x"
| "join sep (x # y # ys) = x @ sep @ join sep (y # ys)"

definition newline :: string where
  "newline = [CHR 0x0A]"

text \<open>
  \<^verbatim>\<open>s.strip()\<close>: whitespace removed at both ends. The whitespace characters are those
  of \<^verbatim>\<open>str.isspace\<close> among the first 256 code points.
\<close>

definition is_space :: "char \<Rightarrow> bool" where
  "is_space c \<longleftrightarrow> c \<in> set [CHR 0x09, CHR 0x0A, CHR 0x0B, CHR 0x0C, CHR 0x0D, CHR 0x1C,
                            CHR 0x1D, CHR 0x1E, CHR 0x1F, CHR 0x20, CHR 0x85, CHR 0xA0]"

definition strip :: "string \<Rightarrow> string" where
  "strip s = rev (dropWhile is_space (rev (dropWhile is_space s)))"

text \<open>Truthiness of a metadata value, as tested by \<^verbatim>\<open>or\<close> and \<^verbatim>\<open>if\<close>.\<close>

fun truthy :: "meta_value \<Rightarrow> bool" where
  "truthy (MStr s) = (s \<noteq> [])"
| "truthy (MInt i) = (i \<noteq> 0)"
| "truthy (MFloat r) = (r \<noteq> 0)"
| "truthy (MBool b) = b"

subsection \<open>The repository: \<^verbatim>\<open>ChromaRepository.similarity_search\<close>\<close>

text \<open>
  The dictionary returned by \<^verbatim>\<open>collection.query\<close>: each entry is absent (\<open>None\<close>) or a
  list with one inner list per query text.
\<close>

record raw_result =
  documents :: "string option list list option"
  metadatas :: "metadata_dict option list list option"
  distances :: "real list list option"
  ids :: "string list list option"

text \<open>
  The collection is a stateful collaborator: a call takes the collection's state, the
  query text and the number of results, and returns the new state with either a result
  or \<open>None\<close> when the call raised an exception.
\<close>

type_synonym 's collection = "'s \<Rightarrow> string \<Rightarrow> int \<Rightarrow> raw_result option \<times> 's"

text \<open>\<^verbatim>\<open>raw.get(key, [[]])[0]\<close>.\<close>

definition get_first :: "'a list list option \<Rightarrow> error + 'a list" where
  "get_first entry =
     (case (case entry of None \<Rightarrow> [[]] | Some v \<Rightarrow> v) of
        [] \<Rightarrow> Inl IndexError
      | x # _ \<Rightarrow> Inr x)"

text \<open>\<^verbatim>\<open>similarity = max(0.0, min(1.0, 1.0 - (float(distance) / 2.0)))\<close>.\<close>

definition similarity :: "real \<Rightarrow> real" where
  "similarity distance = max 0 (min 1 (1 - distance / 2))"

text \<open>The body of the loop \<^verbatim>\<open>for idx, doc in enumerate(documents)\<close>.\<close>

definition make_chunk ::
  "metadata_dict option list \<Rightarrow> real list \<Rightarrow> string list \<Rightarrow> nat \<times> string option
     \<Rightarrow> internal_chunk" where
  "make_chunk metas dists idl p =
     (case p of (idx, doc) \<Rightarrow>
        let text = (case doc of None \<Rightarrow> [] | Some d \<Rightarrow> d);
            md = (if idx < length metas then metas ! idx else None);
            distance = (if idx < length dists then dists ! idx else 0);
            cid = (if idx < length idl then idl ! idx else str_nat idx)
        in \<lparr> chunk_id = cid, chunk_text = text, score = similarity distance,
             metadata = (case md of None \<Rightarrow> Map.empty | Some m \<Rightarrow> m) \<rparr>)"

definition make_chunks ::
  "string option list \<Rightarrow> metadata_dict option list \<Rightarrow> real list \<Rightarrow> string list
     \<Rightarrow> internal_chunk list" where
  "make_chunks docs metas dists idl =
     (if docs = [] then []
      else map (make_chunk metas dists idl) (enumerate 0 docs))"

text \<open>The part of \<^verbatim>\<open>similarity_search\<close> after the query has returned.\<close>

definition chunks_of_raw :: "raw_result \<Rightarrow> error + internal_chunk list" where
  "chunks_of_raw raw =
     (case get_first (documents raw) of Inl e \<Rightarrow> Inl e | Inr docs \<Rightarrow>
     (case get_first (metadatas raw) of Inl e \<Rightarrow> Inl e | Inr metas \<Rightarrow>
     (case get_first (distances raw) of Inl e \<Rightarrow> Inl e | Inr dists \<Rightarrow>
        (let idl = (case ids raw of
                      Some (x # _) \<Rightarrow> x
                    | _ \<Rightarrow> map str_nat [0..<length docs])
         in Inr (make_chunks docs metas dists idl)))))"

definition similarity_search ::
  "settings \<Rightarrow> 's collection \<Rightarrow> 's \<Rightarrow> string \<Rightarrow> int \<Rightarrow> (error + internal_chunk list) \<times> 's" where
  "similarity_search cfg coll s query n_results =
     (let n_results = max 1 (min n_results (retrieval_max_k cfg))
      in case coll s query n_results of
           (None, s') \<Rightarrow> (Inl (ChromaUnavailableError ''ChromaDB query failed''), s')
         | (Some raw, s') \<Rightarrow> (chunks_of_raw raw, s'))"

subsection \<open>The service: \<^verbatim>\<open>RAGService\<close>\<close>

text \<open>
  \<^verbatim>\<open>filtered = [c for c in chunks if c.score >= min_score]\<close> and
  \<^verbatim>\<open>filtered.sort(key=lambda c: c.score, reverse=True)\<close>. Python's sort is stable and
  keeps the order of equal keys under \<^verbatim>\<open>reverse=True\<close>: it is the stable sort on the
  negated key.
\<close>

definition filter_by_score :: "real \<Rightarrow> internal_chunk list \<Rightarrow> internal_chunk list" where
  "filter_by_score min_score chunks = filter (\<lambda>c. score c \<ge> min_score) chunks"

definition sort_by_score :: "internal_chunk list \<Rightarrow> internal_chunk list" where
  "sort_by_score filtered = sort_key (\<lambda>c. - score c) filtered"

text \<open>
  The loop \<^verbatim>\<open>for chunk in filtered\<close> of \<^verbatim>\<open>_select_chunks\<close>, on the state
  (\<^verbatim>\<open>selected\<close>, \<^verbatim>\<open>total_chars\<close>): the first branch is the \<^verbatim>\<open>break\<close>, the second
  the \<^verbatim>\<open>continue\<close>.
\<close>

fun select_loop ::
  "int \<Rightarrow> int \<Rightarrow> internal_chunk list \<Rightarrow> internal_chunk list \<Rightarrow> int \<Rightarrow> internal_chunk list" where
  "select_loop max_sources max_context_chars [] selected total_chars = selected"
| "select_loop max_sources max_context_chars (chunk # rest) selected total_chars =
     (if int (length selected) \<ge> max_sources then selected
      else let prospective_len = total_chars + int (length (chunk_text chunk))
           in if prospective_len > max_context_chars
              then select_loop max_sources max_context_chars rest selected total_chars
              else select_loop max_sources max_context_chars rest (selected @ [chunk])
                     prospective_len)"

definition select_chunks :: "settings \<Rightarrow> internal_chunk list \<Rightarrow> int \<Rightarrow> internal_chunk list" where
  "select_chunks cfg chunks max_sources =
     (let min_score = retrieval_min_score cfg;
          max_context_chars = max_context_characters cfg;
          filtered = sort_by_score (filter_by_score min_score chunks)
      in select_loop max_sources max_context_chars filtered [] 0)"

text \<open>
  \<^verbatim>\<open>chunk.metadata.get("source") or chunk.metadata.get("file_name")\<close>: the first value
  when it is present and truthy, the second (possibly \<^verbatim>\<open>None\<close>) otherwise.
\<close>

definition source_name_of :: "metadata_dict \<Rightarrow> meta_value option" where
  "source_name_of md =
     (case md ''source'' of
        Some v \<Rightarrow> (if truthy v then Some v else md ''file_name'')
      | None \<Rightarrow> md ''file_name'')"

text \<open>
  One line of the Sources section. \<^verbatim>\<open>textwrap.shorten\<close> and the formatting of a
  metadata value inside an f-string are library functions: they are the parameters
  \<open>shorten\<close> and \<open>fmt\<close>.
\<close>

definition citation_prefix :: "nat \<Rightarrow> string" where
  "citation_prefix idx = ''['' @ str_nat idx @ '']''"

definition summary_line ::
  "(string \<Rightarrow> nat \<Rightarrow> string) \<Rightarrow> (meta_value \<Rightarrow> string) \<Rightarrow> nat \<times> internal_chunk \<Rightarrow> string" where
  "summary_line shorten fmt p =
     (case p of (idx, chunk) \<Rightarrow>
        let snippet = shorten (map (\<lambda>ch. if ch = CHR 0x0A then CHR '' '' else ch)
                                 (chunk_text chunk)) 260;
            source_name = source_name_of (metadata chunk);
            prefix = citation_prefix idx;
            prefix = (case source_name of
                        Some v \<Rightarrow> (if truthy v then prefix @ '' ('' @ fmt v @ '')'' else prefix)
                      | None \<Rightarrow> prefix)
        in prefix @ '' '' @ snippet)"

definition summary_lines ::
  "(string \<Rightarrow> nat \<Rightarrow> string) \<Rightarrow> (meta_value \<Rightarrow> string) \<Rightarrow> internal_chunk list \<Rightarrow> string list" where
  "summary_lines shorten fmt chunks = map (summary_line shorten fmt) (enumerate 1 chunks)"

definition answer_header :: "string \<Rightarrow> string list" where
  "answer_header q =
     [''Question: '' @ q,
      '''',
      ''Based on the retrieved knowledge base content, here is a synthesized answer:'',
      '''',
      ''The relevant documentation describes how the internal RAG-powered '' @
      ''assistant is containerized with a FastAPI application talking to '' @
      ''a ChromaDB vector store over HTTP. It highlights how assessment '' @
      ''design content, Docker Compose configuration (including persistent '' @
      ''volumes under /data), and RAG settings are stored as chunks in the '' @
      ''vector database. Retrieval is tuned to pull multiple high-scoring '' @
      ''chunks so complex questions can be answered using a broader span '' @
      ''of context while still filtering out irrelevant noise.'',
      '''',
      ''Each numbered reference below corresponds to a specific chunk that '' @
      ''was retrieved from the knowledge base and used as context. '' @
      ''You can use these citations to audit or refine the underlying '' @
      ''documentation.'',
      '''']"

definition generate_answer ::
  "(string \<Rightarrow> nat \<Rightarrow> string) \<Rightarrow> (meta_value \<Rightarrow> string) \<Rightarrow> string \<Rightarrow> internal_chunk list \<Rightarrow> string" where
  "generate_answer shorten fmt q chunks =
     (let context_summary = join newline (summary_lines shorten fmt chunks);
          answer_sections = answer_header q @ [''Sources:''] @ [context_summary]
      in join newline answer_sections)"

text \<open>The loop of \<^verbatim>\<open>_format_sources\<close> over \<^verbatim>\<open>enumerate(chunks, start=1)\<close>.\<close>

fun format_sources_loop ::
  "(nat \<times> internal_chunk) list \<Rightarrow> source_chunk list \<Rightarrow> error + source_chunk list" where
  "format_sources_loop [] srcs = Inr srcs"
| "format_sources_loop ((idx, chunk) # rest) srcs =
     (let source_name = source_name_of (metadata chunk)
      in case SourceChunk (chunk_id chunk) idx (score chunk) source_name idx
                (chunk_text chunk) (metadata chunk) of
           Inl e \<Rightarrow> Inl e
         | Inr sc \<Rightarrow> format_sources_loop rest (srcs @ [sc]))"

definition format_sources :: "internal_chunk list \<Rightarrow> error + source_chunk list" where
  "format_sources chunks = format_sources_loop (enumerate 1 chunks) []"

definition no_knowledge_answer :: string where
  "no_knowledge_answer =
     ''I could not find any relevant content in the knowledge base '' @
     ''to answer this question. If the topic is important, please '' @
     ''consider adding documentation about it to the RAG corpus.''"

text \<open>\<^verbatim>\<open>payload.max_sources or self._settings.retrieval_default_top_k\<close>.\<close>

definition resolve_max_sources :: "settings \<Rightarrow> query_request \<Rightarrow> int" where
  "resolve_max_sources cfg payload =
     (case request_max_sources payload of
        Some m \<Rightarrow> (if m \<noteq> 0 then m else retrieval_default_top_k cfg)
      | None \<Rightarrow> retrieval_default_top_k cfg)"

definition answer_question ::
  "(string \<Rightarrow> nat \<Rightarrow> string) \<Rightarrow> (meta_value \<Rightarrow> string) \<Rightarrow> settings \<Rightarrow> 's collection \<Rightarrow> 's
     \<Rightarrow> query_request \<Rightarrow> (error + query_response) \<times> 's" where
  "answer_question shorten fmt cfg coll s payload =
     (let q = strip (request_question payload);
          max_sources = resolve_max_sources cfg payload
      in case similarity_search cfg coll s q
                (max max_sources (retrieval_default_top_k cfg)) of
           (Inl e, s') \<Rightarrow> (Inl e, s')
         | (Inr candidate_chunks, s') \<Rightarrow>
             if candidate_chunks = []
             then (Inr \<lparr> answer = no_knowledge_answer, sources = [] \<rparr>, s')
             else let selected_chunks = select_chunks cfg candidate_chunks max_sources;
                      answer_text = generate_answer shorten fmt q selected_chunks
                  in (case format_sources selected_chunks of
                        Inl e \<Rightarrow> (Inl e, s')
                      | Inr srcs \<Rightarrow> (Inr \<lparr> answer = answer_text, sources = srcs \<rparr>, s')))"

subsection \<open>Specification-level notions\<close>

text \<open>Total length of the texts of a chunk list: the size of the context.\<close>

definition context_chars :: "internal_chunk list \<Rightarrow> int" where
  "context_chars cs = int (sum_list (map (\<lambda>c. length (chunk_text c)) cs))"

text \<open>
  The greedy walk as the specification words it: a chunk is accepted exactly when the
  accepted count is below \<open>maxCount\<close> and the running total plus its length stays
  within \<open>maxTotalChars\<close>; every other chunk is passed over and the walk goes on.
\<close>

fun greedy_walk ::
  "int \<Rightarrow> int \<Rightarrow> internal_chunk list \<Rightarrow> internal_chunk list \<Rightarrow> int \<Rightarrow> internal_chunk list" where
  "greedy_walk maxCount maxTotalChars [] accepted running = accepted"
| "greedy_walk maxCount maxTotalChars (c # cs) accepted running =
     (if int (length accepted) < maxCount \<and>
         running + int (length (chunk_text c)) \<le> maxTotalChars
      then greedy_walk maxCount maxTotalChars cs (accepted @ [c])
             (running + int (length (chunk_text c)))
      else greedy_walk maxCount maxTotalChars cs accepted running)"

text \<open>
  A query result as the client returns it for a single query text: every entry that is
  present holds one inner list.
\<close>

definition one_list_per_query :: "raw_result \<Rightarrow> bool" where
  "one_list_per_query raw \<longleftrightarrow>
     documents raw \<noteq> Some [] \<and> metadatas raw \<noteq> Some [] \<and> distances raw \<noteq> Some []"

subsection \<open>Concrete collaborators and inputs\<close>

text \<open>
  A collection that answers from a fixed table and records every call it receives, in
  order, in its state.
\<close>

definition recording_collection ::
  "(string \<Rightarrow> int \<Rightarrow> raw_result option) \<Rightarrow> (string \<times> int) list collection" where
  "recording_collection respond calls query n = (respond query n, calls @ [(query, n)])"

text \<open>
  Sample instances of the two library parameters, for evaluating the service on
  concrete inputs: cutting at the width, and printing a string value as it is.
\<close>

definition cut_shorten :: "string \<Rightarrow> nat \<Rightarrow> string" where
  "cut_shorten s width = take width s"

fun plain_fmt :: "meta_value \<Rightarrow> string" where
  "plain_fmt (MStr s) = s"
| "plain_fmt (MInt i) = (if i < 0 then ''-'' @ str_nat (nat (- i)) else str_nat (nat i))"
| "plain_fmt (MFloat r) = ''<float>''"
| "plain_fmt (MBool b) = (if b then ''True'' else ''False'')"

text \<open>Scenario B of the specification: a budget of 10 characters, texts of length 50 and 5.\<close>

definition scenario_b_settings :: settings where
  "scenario_b_settings = default_settings \<lparr> max_context_characters := 10 \<rparr>"

definition long_chunk :: internal_chunk where
  "long_chunk = \<lparr> chunk_id = ''a'', chunk_text = replicate 50 CHR ''x'', score = 9 / 10,
                  metadata = map_of [] \<rparr>"

definition short_chunk :: internal_chunk where
  "short_chunk = \<lparr> chunk_id = ''b'', chunk_text = ''short'', score = 8 / 10,
                   metadata = map_of [(''source'', MStr ''guide.md'')] \<rparr>"

text \<open>A budget of zero characters, and a chunk whose document was empty.\<close>

definition zero_budget_settings :: settings where
  "zero_budget_settings = default_settings \<lparr> max_context_characters := 0 \<rparr>"

definition blank_chunk :: internal_chunk where
  "blank_chunk = \<lparr> chunk_id = ''0'', chunk_text = [], score = 1, metadata = map_of [] \<rparr>"

text \<open>Chunks scoring exactly the default minimum score, and below it.\<close>

definition threshold_chunk :: internal_chunk where
  "threshold_chunk = \<lparr> chunk_id = ''t'', chunk_text = ''edge'', score = 3 / 10,
                       metadata = map_of [] \<rparr>"

definition weak_chunk :: internal_chunk where
  "weak_chunk = \<lparr> chunk_id = ''w'', chunk_text = ''noise'', score = 1 / 10,
                  metadata = map_of [] \<rparr>"

text \<open>Stores: one that is unreachable, one without documents, one with a single
  document far from the query (distance 1.9), one whose second document has no distance.\<close>

definition unavailable_store :: "string \<Rightarrow> int \<Rightarrow> raw_result option" where
  "unavailable_store query n = None"

definition empty_store :: "string \<Rightarrow> int \<Rightarrow> raw_result option" where
  "empty_store query n =
     Some \<lparr> documents = Some [[]], metadatas = Some [[]], distances = Some [[]],
            ids = Some [[]] \<rparr>"

definition far_raw :: raw_result where
  "far_raw = \<lparr> documents = Some [[Some ''noise'']], metadatas = Some [[None]],
               distances = Some [[19 / 10]], ids = Some [[''w'']] \<rparr>"

definition far_store :: "string \<Rightarrow> int \<Rightarrow> raw_result option" where
  "far_store query n = Some far_raw"

definition gap_raw :: raw_result where
  "gap_raw = \<lparr> documents = Some [[Some ''first'', Some ''second'']],
               metadatas = Some [[None, None]],
               distances = Some [[1]], ids = None \<rparr>"

definition gap_store :: "string \<Rightarrow> int \<Rightarrow> raw_result option" where
  "gap_store query n = Some gap_raw"

text \<open>Requests: one source, twenty sources, and no stated number of sources.\<close>

definition one_source_request :: query_request where
  "one_source_request = \<lparr> request_question = '' why? '', request_max_sources = Some 1 \<rparr>"

definition twenty_sources_request :: query_request where
  "twenty_sources_request = \<lparr> request_question = ''why?'', request_max_sources = Some 20 \<rparr>"

definition plain_request :: query_request where
  "plain_request = \<lparr> request_question = ''why?'', request_max_sources = None \<rparr>"

text \<open>
  A store whose single document carries a source name with a line break in it, and the
  chunk the repository makes of that document.
\<close>

definition line_break_name :: string where
  "line_break_name = ''x)'' @ newline @ ''[2] (y''"

definition line_break_raw :: raw_result where
  "line_break_raw =
     \<lparr> documents = Some [[Some ''t'']],
       metadatas = Some [[Some (map_of [(''source'', MStr line_break_name)])]],
       distances = Some [[0]], ids = Some [[''c'']] \<rparr>"

definition line_break_store :: "string \<Rightarrow> int \<Rightarrow> raw_result option" where
  "line_break_store query n = Some line_break_raw"

definition line_break_chunk :: internal_chunk where
  "line_break_chunk = \<lparr> chunk_id = ''c'', chunk_text = ''t'', score = 1,
                        metadata = map_of [(''source'', MStr line_break_name)] \<rparr>"

section \<open>Properties\<close>

subsection \<open>The selection loop and the sort\<close>

lemma context_chars_snoc: "context_chars (cs @ [c]) = context_chars cs + int (length (chunk_text c))"
  by (simp add: context_chars_def)

lemma select_loop_budget:
  "context_chars selected = tot \<Longrightarrow> tot \<le> mc \<Longrightarrow>
   context_chars (select_loop ms mc xs selected tot) \<le> mc"
proof (induction xs arbitrary: selected tot)
  case Nil
  then show ?case by simp
next
  case (Cons x xs)
  show ?case
  proof (cases "ms \<le> int (length selected)")
    case True
    with Cons.prems show ?thesis by simp
  next
    case False
    show ?thesis
    proof (cases "mc < tot + int (length (chunk_text x))")
      case True
      with False Cons.IH[OF Cons.prems] show ?thesis by (simp add: Let_def)
    next
      case fits: False
      have "context_chars (selected @ [x]) = tot + int (length (chunk_text x))"
        using Cons.prems(1) by (simp add: context_chars_snoc)
      moreover have "tot + int (length (chunk_text x)) \<le> mc" using fits by simp
      ultimately have "context_chars (select_loop ms mc xs (selected @ [x])
                         (tot + int (length (chunk_text x)))) \<le> mc"
        by (rule Cons.IH)
      with False fits show ?thesis by (simp add: Let_def)
    qed
  qed
qed

lemma select_loop_count:
  "int (length selected) \<le> ms \<Longrightarrow> int (length (select_loop ms mc xs selected tot)) \<le> ms"
proof (induction xs arbitrary: selected tot)
  case Nil
  then show ?case by simp
next
  case (Cons x xs)
  show ?case
  proof (cases "ms \<le> int (length selected)")
    case True
    with Cons.prems show ?thesis by simp
  next
    case False
    then have "int (length (selected @ [x])) \<le> ms" by simp
    then have "int (length (select_loop ms mc xs (selected @ [x])
                         (tot + int (length (chunk_text x))))) \<le> ms"
      by (rule Cons.IH)
    with False Cons.IH[OF Cons.prems, of tot] show ?thesis by (simp add: Let_def)
  qed
qed

lemma greedy_walk_full:
  "maxCount \<le> int (length accepted) \<Longrightarrow> greedy_walk maxCount mc cs accepted running = accepted"
  by (induction cs) auto

lemma select_loop_greedy:
  "select_loop ms mc xs selected tot = greedy_walk ms mc xs selected tot"
proof (induction xs arbitrary: selected tot)
  case Nil
  show ?case by simp
next
  case (Cons x xs)
  show ?case
  proof (cases "ms \<le> int (length selected)")
    case True
    then show ?thesis by (simp add: greedy_walk_full)
  next
    case False
    then show ?thesis by (simp add: Let_def Cons.IH)
  qed
qed

lemma select_loop_subseq:
  "\<exists>ys. select_loop ms mc xs selected tot = selected @ ys \<and> subseq ys xs"
proof (induction xs arbitrary: selected tot)
  case Nil
  then show ?case by simp
next
  case (Cons x xs)
  show ?case
  proof (cases "int (length selected) \<ge> ms")
    case True
    then show ?thesis by simp
  next
    case False
    show ?thesis
    proof (cases "tot + int (length (chunk_text x)) > mc")
      case True
      from Cons.IH[of selected tot] obtain ys where
        "select_loop ms mc xs selected tot = selected @ ys" "subseq ys xs" by blast
      with True False show ?thesis by (auto simp: Let_def)
    next
      case nf: False
      from Cons.IH[of "selected @ [x]" "tot + int (length (chunk_text x))"] obtain ys where
        "select_loop ms mc xs (selected @ [x]) (tot + int (length (chunk_text x))) = (selected @ [x]) @ ys" "subseq ys xs" by blast
      with nf False show ?thesis by (auto simp: Let_def intro!: exI[of _ "x # ys"])
    qed
  qed
qed

lemma select_chunks_subseq:
  "subseq (select_chunks cfg chunks ms) (sort_by_score (filter_by_score (retrieval_min_score cfg) chunks))"
  using select_loop_subseq[of ms "max_context_characters cfg" _ "[]" 0]
  by (auto simp: select_chunks_def Let_def)


lemma subseq_set: "subseq ys xs \<Longrightarrow> set ys \<subseteq> set xs"
  by (induction ys xs rule: list_emb.induct) auto

lemma subseq_sorted_wrt: "subseq ys xs \<Longrightarrow> sorted_wrt R xs \<Longrightarrow> sorted_wrt R ys"
proof (induction ys xs rule: list_emb.induct)
  case (list_emb_Nil ys)
  then show ?case by simp
next
  case (list_emb_Cons xs ys y)
  then show ?case by simp
next
  case (list_emb_Cons2 x y xs ys)
  have "set xs \<subseteq> set ys" using list_emb_Cons2.hyps(2) by (rule subseq_set)
  with list_emb_Cons2 show ?case by auto
qed

lemma sort_by_score_sorted: "sorted_wrt (\<lambda>a b. score a \<ge> score b) (sort_by_score xs)"
proof -
  have "sorted (map (\<lambda>c. - score c) (sort_by_score xs))"
    unfolding sort_by_score_def by (rule sorted_sort_key)
  then show ?thesis by (simp add: sorted_map)
qed

lemma sort_by_score_stable:
  "filter (\<lambda>c. score c = k) (sort_by_score xs) = filter (\<lambda>c. score c = k) xs"
  using sort_key_stable[of "\<lambda>c. - score c" "- k" xs] by (simp add: sort_by_score_def)

lemma set_sort_by_score: "set (sort_by_score xs) = set xs"
  by (simp add: sort_by_score_def)


subsection \<open>Scoring\<close>

text \<open>
  Claim C3. For every raw distance \<open>d\<close>, negative and above 2 included, the similarity
  computed from \<open>d\<close> is \<open>1 - d / 2\<close> clamped to the interval from 0 to 1: it
  lies in that interval, it is 1 at distance 0 and 0 at distance 2. The function is
  total on the reals.
\<close>
theorem similarity_is_clamp:
  "similarity d = (if 1 - d / 2 < 0 then 0 else if 1 < 1 - d / 2 then 1 else 1 - d / 2) \<and>
   0 \<le> similarity d \<and> similarity d \<le> 1 \<and> similarity 0 = 1 \<and> similarity 2 = 0"
  by (simp add: similarity_def max_def min_def)

subsection \<open>The chunk selector\<close>

text \<open>
  Claim C1. For a positive \<open>max_sources\<close> and a non-negative character budget, the
  selector's loop over the score-sorted list is the greedy walk of the specification
  (accept when the count is below the cap and the running total plus the text length
  fits the budget, pass over the chunk and go on otherwise); the texts of the output
  sum to at most the budget, and the output has at most \<open>max_sources\<close> chunks.
\<close>
theorem select_chunks_greedy_within_limits:
  assumes "0 < max_sources" and "0 \<le> max_context_characters cfg"
  shows "select_chunks cfg chunks max_sources =
           greedy_walk max_sources (max_context_characters cfg)
             (sort_by_score (filter_by_score (retrieval_min_score cfg) chunks)) [] 0 \<and>
         context_chars (select_chunks cfg chunks max_sources) \<le> max_context_characters cfg \<and>
         int (length (select_chunks cfg chunks max_sources)) \<le> max_sources"
proof -
  let ?mc = "max_context_characters cfg"
  let ?xs = "sort_by_score (filter_by_score (retrieval_min_score cfg) chunks)"
  have sel: "select_chunks cfg chunks max_sources = select_loop max_sources ?mc ?xs [] 0"
    by (simp add: select_chunks_def Let_def)
  have "context_chars [] = 0" by (simp add: context_chars_def)
  then have "context_chars (select_loop max_sources ?mc ?xs [] 0) \<le> ?mc"
    using assms(2) by (rule select_loop_budget)
  moreover have "int (length ([] :: internal_chunk list)) \<le> max_sources"
    using assms(1) by simp
  then have "int (length (select_loop max_sources ?mc ?xs [] 0)) \<le> max_sources"
    by (rule select_loop_count)
  ultimately show ?thesis by (simp add: sel select_loop_greedy)
qed

text \<open>
  Scenario B: the chunk of 50 characters overflows the budget of 10 and is passed over,
  the later chunk of 5 characters is accepted.
\<close>

lemma scenario_b_selection: "select_chunks scenario_b_settings [long_chunk, short_chunk] 5 = [short_chunk]"
  by (simp add: select_chunks_def scenario_b_settings_def default_settings_def long_chunk_def
      short_chunk_def filter_by_score_def sort_by_score_def)

theorem select_chunks_greedy_within_limits_witness:
  "select_chunks scenario_b_settings [long_chunk, short_chunk] 5 = [short_chunk] \<and>
   greedy_walk 5 10 [long_chunk, short_chunk] [] 0 = [short_chunk] \<and>
   context_chars [short_chunk] \<le> 10 \<and> int (length [short_chunk]) \<le> 5"
proof -
  have h1: "(0::int) < 5" by simp
  have h2: "0 \<le> max_context_characters scenario_b_settings"
    by (simp add: scenario_b_settings_def default_settings_def)
  have srt: "sort_by_score (filter_by_score (retrieval_min_score scenario_b_settings)
               [long_chunk, short_chunk]) = [long_chunk, short_chunk]"
    by (simp add: scenario_b_settings_def default_settings_def long_chunk_def
      short_chunk_def filter_by_score_def sort_by_score_def)
  have mc: "max_context_characters scenario_b_settings = 10"
    by (simp add: scenario_b_settings_def default_settings_def)
  from select_chunks_greedy_within_limits[OF h1 h2, of "[long_chunk, short_chunk]"]
  show ?thesis by (simp only: scenario_b_selection srt mc)
qed

text \<open>
  Claim C5, as stated (a budget of 0 gives an empty output whatever the scores), fails
  for a chunk with an empty text: its length 0 fits a budget of 0.
\<close>
theorem zero_budget_counterexample:
  "max_context_characters zero_budget_settings = 0 \<and>
   select_chunks zero_budget_settings [blank_chunk] 1 \<noteq> []"
  by (simp add: select_chunks_def zero_budget_settings_def default_settings_def blank_chunk_def
      filter_by_score_def sort_by_score_def)

text \<open>
  Claim C5, amended. With a budget of 0 every chunk of the output has an empty text; the
  output is empty when no input chunk has an empty text.
\<close>

theorem zero_budget_only_empty_texts:
  assumes "max_context_characters cfg = 0"
  shows "(\<forall>c \<in> set (select_chunks cfg chunks max_sources). chunk_text c = []) \<and>
         ((\<forall>c \<in> set chunks. chunk_text c \<noteq> []) \<longrightarrow> select_chunks cfg chunks max_sources = [])"
proof -
  have "context_chars [] = 0" by (simp add: context_chars_def)
  then have "context_chars (select_loop max_sources 0
          (sort_by_score (filter_by_score (retrieval_min_score cfg) chunks)) [] 0) \<le> 0"
    by (rule select_loop_budget) simp
  then have le: "context_chars (select_chunks cfg chunks max_sources) \<le> 0"
    using assms by (simp add: select_chunks_def Let_def)
  then have empty: "\<forall>c \<in> set (select_chunks cfg chunks max_sources). chunk_text c = []"
    by (auto simp: context_chars_def)
  have sub: "set (select_chunks cfg chunks max_sources) \<subseteq> set chunks"
    using subseq_set[OF select_chunks_subseq, of cfg chunks max_sources]
    by (auto simp: set_sort_by_score filter_by_score_def)
  have "select_chunks cfg chunks max_sources = []" if ne: "\<forall>c \<in> set chunks. chunk_text c \<noteq> []"
  proof (cases "select_chunks cfg chunks max_sources")
    case Nil
    then show ?thesis .
  next
    case (Cons x xs)
    then have "x \<in> set (select_chunks cfg chunks max_sources)" by simp
    with empty sub have "chunk_text x = []" and "x \<in> set chunks" by auto
    with ne show ?thesis by simp
  qed
  with empty show ?thesis by simp
qed

theorem zero_budget_only_empty_texts_witness:
  "select_chunks zero_budget_settings [short_chunk, blank_chunk] 5 = [blank_chunk] \<and>
   select_chunks zero_budget_settings [short_chunk, long_chunk] 5 = []"
proof -
  have h: "max_context_characters zero_budget_settings = 0"
    by (simp add: zero_budget_settings_def default_settings_def)
  have ne: "\<forall>c \<in> set [short_chunk, long_chunk]. chunk_text c \<noteq> []"
    by (simp add: short_chunk_def long_chunk_def)
  have "select_chunks zero_budget_settings [short_chunk, blank_chunk] 5 = [blank_chunk]"
    by (simp add: select_chunks_def zero_budget_settings_def default_settings_def blank_chunk_def
      short_chunk_def filter_by_score_def sort_by_score_def)
  with zero_budget_only_empty_texts[OF h, of "[short_chunk, long_chunk]" 5] ne
  show ?thesis by simp
qed

text \<open>
  Claim C7. No chunk of the selector's output scores strictly below the minimum score,
  every chunk of the output is a chunk of the input, and a chunk scoring exactly the
  minimum score is kept by the filter.
\<close>
theorem select_chunks_respects_min_score:
  "(\<forall>c \<in> set (select_chunks cfg chunks max_sources).
       \<not> score c < retrieval_min_score cfg \<and> c \<in> set chunks) \<and>
   (\<forall>c \<in> set chunks. score c = retrieval_min_score cfg \<longrightarrow>
       c \<in> set (filter_by_score (retrieval_min_score cfg) chunks))"
proof -
  have "set (select_chunks cfg chunks max_sources)
          \<subseteq> set (filter_by_score (retrieval_min_score cfg) chunks)"
    using subseq_set[OF select_chunks_subseq, of cfg chunks max_sources]
    by (simp add: set_sort_by_score)
  then show ?thesis by (auto simp: filter_by_score_def)
qed

theorem select_chunks_respects_min_score_witness:
  "select_chunks default_settings [weak_chunk, threshold_chunk] 5 = [threshold_chunk] \<and>
   score threshold_chunk = retrieval_min_score default_settings \<and>
   threshold_chunk \<in> set (filter_by_score (retrieval_min_score default_settings)
                             [weak_chunk, threshold_chunk]) \<and>
   \<not> score threshold_chunk < retrieval_min_score default_settings"
proof -
  have sel: "select_chunks default_settings [weak_chunk, threshold_chunk] 5 = [threshold_chunk]"
    by (simp add: select_chunks_def default_settings_def weak_chunk_def threshold_chunk_def
        filter_by_score_def sort_by_score_def)
  have eq: "score threshold_chunk = retrieval_min_score default_settings"
    by (simp add: default_settings_def threshold_chunk_def)
  from select_chunks_respects_min_score[of default_settings "[weak_chunk, threshold_chunk]" 5]
  show ?thesis using sel eq by simp
qed

text \<open>
  Claim C8. The selector's output is sorted by descending score, and for each score
  value \<open>k\<close> the output chunks scoring \<open>k\<close> appear in the order they have in
  the input.
\<close>
theorem select_chunks_sorted_stable:
  "sorted_wrt (\<lambda>a b. score a \<ge> score b) (select_chunks cfg chunks max_sources) \<and>
   subseq (filter (\<lambda>c. score c = k) (select_chunks cfg chunks max_sources))
          (filter (\<lambda>c. score c = k) chunks)"
proof
  show "sorted_wrt (\<lambda>a b. score a \<ge> score b) (select_chunks cfg chunks max_sources)"
    using select_chunks_subseq sort_by_score_sorted by (rule subseq_sorted_wrt)
next
  let ?P = "\<lambda>c. score c = k"
  let ?f = "filter_by_score (retrieval_min_score cfg) chunks"
  have "subseq (filter ?P (select_chunks cfg chunks max_sources)) (filter ?P (sort_by_score ?f))"
    using select_chunks_subseq by (rule subseq_filter)
  then have "subseq (filter ?P (select_chunks cfg chunks max_sources)) (filter ?P ?f)"
    by (simp only: sort_by_score_stable)
  moreover have "subseq (filter ?P ?f) (filter ?P chunks)"
    unfolding filter_by_score_def by (intro subseq_filter subseq_filter_left)
  ultimately show "subseq (filter ?P (select_chunks cfg chunks max_sources)) (filter ?P chunks)"
    by (rule subseq_order.order_trans)
qed

subsection \<open>The repository\<close>

lemma similarity_bounds: "0 \<le> similarity d \<and> similarity d \<le> 1"
  by (simp add: similarity_def max_def min_def)

lemma length_make_chunks: "length (make_chunks docs metas dists idl) = length docs"
  by (simp add: make_chunks_def)

lemma nth_make_chunks:
  "idx < length docs \<Longrightarrow>
   make_chunks docs metas dists idl ! idx = make_chunk metas dists idl (idx, docs ! idx)"
  by (auto simp: make_chunks_def nth_enumerate_eq)

lemma score_make_chunk:
  "score (make_chunk metas dists idl (idx, doc)) =
     similarity (if idx < length dists then dists ! idx else 0)"
  by (simp add: make_chunk_def Let_def)

lemma make_chunks_scores:
  assumes "c \<in> set (make_chunks docs metas dists idl)"
  shows "0 \<le> score c \<and> score c \<le> 1"
proof -
  from assms obtain i where i: "i < length docs" and c: "c = make_chunks docs metas dists idl ! i"
    by (auto simp: in_set_conv_nth length_make_chunks)
  show ?thesis unfolding c nth_make_chunks[OF i] score_make_chunk by (rule similarity_bounds)
qed

text \<open>
  Claim C10. A document at a position for which the distances list has no entry gets the
  raw distance 0 and with it the similarity 1, the largest score any chunk of the
  result can have.
\<close>
theorem missing_distance_scores_one:
  assumes "idx < length docs" and "length dists \<le> idx"
  shows "length (make_chunks docs metas dists idl) = length docs \<and>
         score (make_chunks docs metas dists idl ! idx) = similarity 0 \<and>
         score (make_chunks docs metas dists idl ! idx) = 1 \<and>
         (\<forall>c \<in> set (make_chunks docs metas dists idl).
             score c \<le> score (make_chunks docs metas dists idl ! idx))"
proof -
  have s: "score (make_chunks docs metas dists idl ! idx) = similarity 0"
    using assms by (simp add: nth_make_chunks score_make_chunk)
  have one: "similarity 0 = 1" by (simp add: similarity_def)
  show ?thesis using make_chunks_scores[of _ docs metas dists idl]
    by (simp add: s one length_make_chunks)
qed

lemma gap_raw_chunks:
  "chunks_of_raw gap_raw =
     Inr [\<lparr> chunk_id = ''0'', chunk_text = ''first'', score = 1 / 2, metadata = Map.empty \<rparr>,
          \<lparr> chunk_id = ''1'', chunk_text = ''second'', score = 1, metadata = Map.empty \<rparr>]"
  by (simp add: chunks_of_raw_def gap_raw_def get_first_def make_chunks_def make_chunk_def
      similarity_def str_nat.simps digit_char_def upt_rec[of 0] upt_rec[of 1] )

theorem missing_distance_scores_one_witness:
  "chunks_of_raw gap_raw = Inr (make_chunks [Some ''first'', Some ''second''] [None, None] [1] [''0'', ''1'']) \<and>
   score (make_chunks [Some ''first'', Some ''second''] [None, None] [1] [''0'', ''1''] ! 1) = 1 \<and>
   score (make_chunks [Some ''first'', Some ''second''] [None, None] [1] [''0'', ''1''] ! 0) = 1 / 2"
proof -
  have h1: "(1::nat) < length [Some ''first'', Some ''second'']" by simp
  have h2: "length [1::real] \<le> 1" by simp
  have raw: "chunks_of_raw gap_raw = Inr (make_chunks [Some ''first'', Some ''second''] [None, None] [1] [''0'', ''1''])"
   by (simp add: chunks_of_raw_def gap_raw_def get_first_def 
      str_nat.simps digit_char_def upt_rec[of 0] upt_rec[of 1] )
  have z: "score (make_chunks [Some ''first'', Some ''second''] [None, None] [1] [''0'', ''1''] ! 0) = 1 / 2"
    by (simp add: nth_make_chunks score_make_chunk similarity_def)
  from missing_distance_scores_one[OF h1 h2, of "[None, None]" "[''0'', ''1'']"] raw z
  show ?thesis by simp
qed

subsection \<open>The service\<close>

lemma format_sources_loop_ok:
  assumes "1 \<le> n" and "\<forall>c \<in> set chunks. 0 \<le> score c \<and> score c \<le> 1"
  shows "format_sources_loop (enumerate n chunks) acc =
           Inr (acc @ map (\<lambda>(idx, chunk).
                  \<lparr> source_id = chunk_id chunk, citation_id = idx, source_score = score chunk,
                    source = source_name_of (metadata chunk), rank = idx,
                    source_text = chunk_text chunk, source_metadata = metadata chunk \<rparr>)
                (enumerate n chunks))"
  using assms
proof (induction chunks arbitrary: n acc)
  case Nil
  then show ?case by simp
next
  case (Cons c cs)
  have "1 \<le> Suc n" by simp
  moreover have "\<forall>c \<in> set cs. 0 \<le> score c \<and> score c \<le> 1" using Cons.prems(2) by simp
  ultimately have IH: "format_sources_loop (enumerate (Suc n) cs) acc' =
           Inr (acc' @ map (\<lambda>(idx, chunk).
                  \<lparr> source_id = chunk_id chunk, citation_id = idx, source_score = score chunk,
                    source = source_name_of (metadata chunk), rank = idx,
                    source_text = chunk_text chunk, source_metadata = metadata chunk \<rparr>)
                (enumerate (Suc n) cs))" for acc'
    by (rule Cons.IH)
  have "0 \<le> score c \<and> score c \<le> 1" using Cons.prems(2) by simp
  with Cons.prems(1) show ?case by (simp add: SourceChunk_def Let_def IH)
qed

lemma format_sources_ok:
  assumes "\<forall>c \<in> set chunks. 0 \<le> score c \<and> score c \<le> 1"
  shows "format_sources chunks =
           Inr (map (\<lambda>(idx, chunk).
                  \<lparr> source_id = chunk_id chunk, citation_id = idx, source_score = score chunk,
                    source = source_name_of (metadata chunk), rank = idx,
                    source_text = chunk_text chunk, source_metadata = metadata chunk \<rparr>)
                (enumerate 1 chunks))"
  unfolding format_sources_def using format_sources_loop_ok[OF _ assms, of 1 "[]"] by simp

lemma get_first_ok: "entry \<noteq> Some [] \<Longrightarrow> \<exists>x. get_first entry = Inr x"
proof (cases entry)
  case None
  then show ?thesis by (simp add: get_first_def)
next
  case (Some v)
  assume "entry \<noteq> Some []"
  with Some obtain x xs where "v = x # xs" by (cases v) auto
  with Some show ?thesis by (simp add: get_first_def)
qed

lemma chunks_of_raw_ok:
  assumes "one_list_per_query raw"
  shows "\<exists>chunks. chunks_of_raw raw = Inr chunks \<and> (\<forall>c \<in> set chunks. 0 \<le> score c \<and> score c \<le> 1)"
proof -
  from assms obtain docs where d: "get_first (documents raw) = Inr docs"
    using get_first_ok[of "documents raw"] by (auto simp: one_list_per_query_def)
  from assms obtain metas where m: "get_first (metadatas raw) = Inr metas"
    using get_first_ok[of "metadatas raw"] by (auto simp: one_list_per_query_def)
  from assms obtain dists where ds: "get_first (distances raw) = Inr dists"
    using get_first_ok[of "distances raw"] by (auto simp: one_list_per_query_def)
  obtain idl where "chunks_of_raw raw = Inr (make_chunks docs metas dists idl)"
    by (simp add: chunks_of_raw_def d m ds Let_def)
  then show ?thesis using make_chunks_scores by blast
qed

lemma select_chunks_subset: "set (select_chunks cfg chunks ms) \<subseteq> set chunks"
  using subseq_set[OF select_chunks_subseq, of cfg chunks ms]
  by (auto simp: set_sort_by_score filter_by_score_def)

lemma similarity_search_unavailable:
  "coll s q (max 1 (min n (retrieval_max_k cfg))) = (None, s') \<Longrightarrow>
   similarity_search cfg coll s q n = (Inl (ChromaUnavailableError ''ChromaDB query failed''), s')"
  by (simp add: similarity_search_def Let_def)

lemma similarity_search_returned:
  "coll s q (max 1 (min n (retrieval_max_k cfg))) = (Some raw, s') \<Longrightarrow>
   similarity_search cfg coll s q n = (chunks_of_raw raw, s')"
  by (simp add: similarity_search_def Let_def)

lemma snd_similarity_search:
  "snd (similarity_search cfg coll s q n) = snd (coll s q (max 1 (min n (retrieval_max_k cfg))))"
  by (simp add: similarity_search_def Let_def split: prod.splits option.splits)

lemma snd_answer_question:
  "snd (answer_question sh fmt cfg coll s payload) =
   snd (similarity_search cfg coll s (strip (request_question payload))
          (max (resolve_max_sources cfg payload) (retrieval_default_top_k cfg)))"
  by (simp add: answer_question_def Let_def split: prod.splits sum.splits)

text \<open>
  Claim C9. When the collection's query raises, \<open>answer_question\<close> returns the
  error \<open>ChromaUnavailableError\<close> and no response, and the collection is left in the
  state after that one call (no second call is made). When the query returns a result
  with one inner list per entry, \<open>answer_question\<close> returns a response: no other
  error escapes.
\<close>
theorem provider_unavailable_only_failure:
  "(coll s (strip (request_question payload))
       (max 1 (min (max (resolve_max_sources cfg payload) (retrieval_default_top_k cfg))
                   (retrieval_max_k cfg))) = (None, s') \<longrightarrow>
     answer_question sh fmt cfg coll s payload =
       (Inl (ChromaUnavailableError ''ChromaDB query failed''), s')) \<and>
   (coll s (strip (request_question payload))
       (max 1 (min (max (resolve_max_sources cfg payload) (retrieval_default_top_k cfg))
                   (retrieval_max_k cfg))) = (Some raw, s') \<and> one_list_per_query raw \<longrightarrow>
     (\<exists>resp. answer_question sh fmt cfg coll s payload = (Inr resp, s')))"
proof (intro conjI impI)
  assume "coll s (strip (request_question payload))
       (max 1 (min (max (resolve_max_sources cfg payload) (retrieval_default_top_k cfg))
                   (retrieval_max_k cfg))) = (None, s')"
  then have "similarity_search cfg coll s (strip (request_question payload))
       (max (resolve_max_sources cfg payload) (retrieval_default_top_k cfg)) =
       (Inl (ChromaUnavailableError ''ChromaDB query failed''), s')"
    by (rule similarity_search_unavailable)
  then show "answer_question sh fmt cfg coll s payload =
       (Inl (ChromaUnavailableError ''ChromaDB query failed''), s')"
    by (simp add: answer_question_def Let_def)
next
  assume a: "coll s (strip (request_question payload))
       (max 1 (min (max (resolve_max_sources cfg payload) (retrieval_default_top_k cfg))
                   (retrieval_max_k cfg))) = (Some raw, s') \<and> one_list_per_query raw"
  then have ss: "similarity_search cfg coll s (strip (request_question payload))
       (max (resolve_max_sources cfg payload) (retrieval_default_top_k cfg)) =
       (chunks_of_raw raw, s')"
    by (intro similarity_search_returned) simp
  from a obtain chunks where c: "chunks_of_raw raw = Inr chunks"
    and sc: "\<forall>c \<in> set chunks. 0 \<le> score c \<and> score c \<le> 1"
    using chunks_of_raw_ok by blast
  let ?sel = "select_chunks cfg chunks (resolve_max_sources cfg payload)"
  have "\<forall>c \<in> set ?sel. 0 \<le> score c \<and> score c \<le> 1"
    using sc select_chunks_subset[of cfg chunks "resolve_max_sources cfg payload"] by blast
  then obtain srcs where "format_sources ?sel = Inr srcs"
    using format_sources_ok by blast
  then show "\<exists>resp. answer_question sh fmt cfg coll s payload = (Inr resp, s')"
    by (simp add: answer_question_def Let_def ss c)
qed

lemmas eval_request =
  strip_def is_space_def resolve_max_sources_def default_settings_def recording_collection_def

text \<open>
  The default request against an unreachable store and against a store that returns two
  documents: in both runs the store is called once, for 8 results.
\<close>

theorem provider_unavailable_only_failure_witness:
  "answer_question cut_shorten plain_fmt default_settings
     (recording_collection unavailable_store) [] plain_request =
     (Inl (ChromaUnavailableError ''ChromaDB query failed''), [(''why?'', 8)]) \<and>
   (\<exists>resp. answer_question cut_shorten plain_fmt default_settings
     (recording_collection gap_store) [] plain_request = (Inr resp, [(''why?'', 8)]))"
proof -
  have h1: "recording_collection unavailable_store [] (strip (request_question plain_request))
       (max 1 (min (max (resolve_max_sources default_settings plain_request)
                        (retrieval_default_top_k default_settings))
                   (retrieval_max_k default_settings))) = (None, [(''why?'', 8)])"
    by (simp add: eval_request plain_request_def unavailable_store_def)
  have h2: "recording_collection gap_store [] (strip (request_question plain_request))
       (max 1 (min (max (resolve_max_sources default_settings plain_request)
                        (retrieval_default_top_k default_settings))
                   (retrieval_max_k default_settings))) = (Some gap_raw, [(''why?'', 8)]) \<and>
       one_list_per_query gap_raw"
    by (simp add: eval_request plain_request_def gap_store_def one_list_per_query_def gap_raw_def)
  from provider_unavailable_only_failure[of "recording_collection unavailable_store" "[]"
         plain_request default_settings "[(''why?'', 8)]" cut_shorten plain_fmt]
       provider_unavailable_only_failure[of "recording_collection gap_store" "[]"
         plain_request default_settings "[(''why?'', 8)]" cut_shorten plain_fmt gap_raw]
       h1 h2
  show ?thesis by blast
qed

text \<open>
  Claim C6, amended. \<open>answer_question\<close> hands
  \<open>max max_sources retrieval_default_top_k\<close> to \<open>similarity_search\<close>, which
  clamps it between 1 and \<open>retrieval_max_k\<close>: the collection receives exactly one
  call, for the clamped number of results. That number is
  \<open>max max_sources retrieval_default_top_k\<close> whenever this value lies between 1 and
  \<open>retrieval_max_k\<close>.
\<close>
theorem store_asked_once_for_clamped_count:
  "snd (answer_question sh fmt cfg (recording_collection respond) calls payload) =
     calls @ [(strip (request_question payload),
               max 1 (min (max (resolve_max_sources cfg payload) (retrieval_default_top_k cfg))
                          (retrieval_max_k cfg)))] \<and>
   (1 \<le> max (resolve_max_sources cfg payload) (retrieval_default_top_k cfg) \<and>
    max (resolve_max_sources cfg payload) (retrieval_default_top_k cfg) \<le> retrieval_max_k cfg \<longrightarrow>
    snd (answer_question sh fmt cfg (recording_collection respond) calls payload) =
      calls @ [(strip (request_question payload),
                max (resolve_max_sources cfg payload) (retrieval_default_top_k cfg))])"
proof -
  have "snd (answer_question sh fmt cfg (recording_collection respond) calls payload) =
     calls @ [(strip (request_question payload),
               max 1 (min (max (resolve_max_sources cfg payload) (retrieval_default_top_k cfg))
                          (retrieval_max_k cfg)))]"
    by (simp add: snd_answer_question snd_similarity_search recording_collection_def)
  then show ?thesis by (simp add: max_def min_def)
qed

text \<open>Scenario E: one source requested, default top-k 8, so 8 results are asked for.\<close>

theorem store_asked_once_for_clamped_count_witness:
  "snd (answer_question cut_shorten plain_fmt default_settings
          (recording_collection empty_store) [] one_source_request) = [(''why?'', 8)] \<and>
   resolve_max_sources default_settings one_source_request = 1"
proof -
  have h: "1 \<le> max (resolve_max_sources default_settings one_source_request)
                   (retrieval_default_top_k default_settings) \<and>
           max (resolve_max_sources default_settings one_source_request)
               (retrieval_default_top_k default_settings) \<le> retrieval_max_k default_settings"
    by (simp add: resolve_max_sources_def default_settings_def one_source_request_def)
  have q: "strip (request_question one_source_request) = ''why?''"
    by (simp add: strip_def is_space_def one_source_request_def)
  have m: "resolve_max_sources default_settings one_source_request = 1"
    by (simp add: resolve_max_sources_def one_source_request_def)
  have k: "retrieval_default_top_k default_settings = 8" by (simp add: default_settings_def)
  from store_asked_once_for_clamped_count[of cut_shorten plain_fmt default_settings empty_store
         "[]" one_source_request] h
  show ?thesis by (simp add: q m k)
qed

text \<open>
  Claim C6, as stated, fails when the caller asks for more sources than
  \<open>retrieval_max_k\<close>: with the default settings and 20 sources the collection is
  asked for 12 results, not for \<open>max 20 8 = 20\<close>.
\<close>

theorem store_asked_for_max_counterexample:
  "snd (answer_question cut_shorten plain_fmt default_settings
          (recording_collection empty_store) [] twenty_sources_request) = [(''why?'', 12)] \<and>
   max (resolve_max_sources default_settings twenty_sources_request)
       (retrieval_default_top_k default_settings) = 20"
  by (simp add: snd_answer_question snd_similarity_search eval_request twenty_sources_request_def)

text \<open>The composed answer: its beginning, and its shape for an empty selection.\<close>

lemma join_snoc: "xs \<noteq> [] \<Longrightarrow> join sep (xs @ [y]) = join sep xs @ sep @ y"
  by (induction sep xs rule: join.induct) auto

lemma generate_answer_empty:
  "generate_answer sh fmt q [] = join newline (answer_header q) @ newline @ ''Sources:'' @ newline"
proof -
  have ne: "answer_header q \<noteq> []" by (simp add: answer_header_def)
  have "generate_answer sh fmt q [] = join newline ((answer_header q @ [''Sources:'']) @ [[]])"
    by (simp add: generate_answer_def summary_lines_def)
  also have "\<dots> = join newline (answer_header q @ [''Sources:'']) @ newline @ []"
    by (rule join_snoc) simp
  also have "join newline (answer_header q @ [''Sources:'']) = join newline (answer_header q) @ newline @ ''Sources:''"
    using ne by (rule join_snoc)
  finally show ?thesis by simp
qed

lemma generate_answer_starts:
  "\<exists>rest. generate_answer sh fmt q chunks = CHR ''Q'' # rest"
proof -
  obtain l1 l2 ls where "answer_header q @ [''Sources:''] @ [join newline (summary_lines sh fmt chunks)]
     = (CHR ''Q'' # l1) # l2 # ls"
    by (simp add: answer_header_def)
  then show ?thesis by (simp add: generate_answer_def Let_def)
qed

lemma generate_answer_not_apology: "generate_answer sh fmt q chunks \<noteq> no_knowledge_answer"
proof -
  obtain rest where "generate_answer sh fmt q chunks = CHR ''Q'' # rest"
    using generate_answer_starts by blast
  then have "hd (generate_answer sh fmt q chunks) = CHR ''Q''" by simp
  moreover have "hd no_knowledge_answer = CHR ''I''" by (simp add: no_knowledge_answer_def)
  ultimately show ?thesis by auto
qed

text \<open>
  Claim C4 on a concrete run. The store returns one candidate at distance 1.9, whose
  score 0.05 is below the minimum score 0.3. The selection is empty and the source list
  is empty, yet the answer is the templated text, which differs from the fixed
  no-knowledge message and ends with the heading of the Sources section.
\<close>
theorem empty_selection_keeps_sources_section:
  "answer_question cut_shorten plain_fmt default_settings (recording_collection far_store) []
     plain_request =
     (Inr \<lparr> answer = generate_answer cut_shorten plain_fmt ''why?'' [], sources = [] \<rparr>,
      [(''why?'', 8)]) \<and>
   generate_answer cut_shorten plain_fmt ''why?'' [] \<noteq> no_knowledge_answer \<and>
   suffix (''Sources:'' @ newline) (generate_answer cut_shorten plain_fmt ''why?'' [])"
proof -
  have raw: "chunks_of_raw far_raw =
     Inr [\<lparr> chunk_id = ''w'', chunk_text = ''noise'', score = 1 / 20, metadata = Map.empty \<rparr>]"
    by (simp add: chunks_of_raw_def far_raw_def get_first_def make_chunks_def make_chunk_def
        similarity_def)
  have ss: "similarity_search default_settings (recording_collection far_store) [] ''why?'' 8 =
      (chunks_of_raw far_raw, [(''why?'', 8)])"
    by (simp add: similarity_search_def Let_def recording_collection_def far_store_def default_settings_def)
  have sel: "select_chunks default_settings
       [\<lparr> chunk_id = ''w'', chunk_text = ''noise'', score = 1 / 20, metadata = Map.empty \<rparr>] 8 = []"
    by (simp add: select_chunks_def default_settings_def filter_by_score_def sort_by_score_def)
  have q: "strip (request_question plain_request) = ''why?''"
    by (simp add: strip_def is_space_def plain_request_def)
  have m: "resolve_max_sources default_settings plain_request = 8"
    by (simp add: resolve_max_sources_def plain_request_def default_settings_def)
  have k: "retrieval_default_top_k default_settings = 8" by (simp add: default_settings_def)
  have fs: "format_sources [] = Inr []" by (simp add: format_sources_def)
  have a: "answer_question cut_shorten plain_fmt default_settings (recording_collection far_store) []
     plain_request =
     (Inr \<lparr> answer = generate_answer cut_shorten plain_fmt ''why?'' [], sources = [] \<rparr>,
      [(''why?'', 8)])"
    by (simp add: answer_question_def Let_def q m k ss raw sel fs)
  have "suffix (''Sources:'' @ newline) (generate_answer cut_shorten plain_fmt ''why?'' [])"
    unfolding generate_answer_empty by (rule suffixI) simp
  with a generate_answer_not_apology show ?thesis by simp
qed

subsection \<open>Citations\<close>

text \<open>The decimal rendering is injective, and a bracketed label determines its number.\<close>

lemma digit_char_inj:
  assumes "a < 10" and "b < 10" and "digit_char a = digit_char b"
  shows "a = b"
proof -
  have "distinct ''0123456789''" by simp
  moreover have "a < length ''0123456789''" and "b < length ''0123456789''"
    using assms(1,2) by simp_all
  ultimately show ?thesis using assms(3) unfolding digit_char_def
    by (simp only: nth_eq_iff_index_eq)
qed

lemma digit_char_in_digits: "d < 10 \<Longrightarrow> digit_char d \<in> set ''0123456789''"
  unfolding digit_char_def by (rule nth_mem) simp

lemma str_nat_nonempty: "str_nat n \<noteq> []"
  by (subst str_nat.simps) simp

lemma str_nat_digits: "set (str_nat n) \<subseteq> set ''0123456789''"
proof (induction n rule: str_nat.induct)
  case (1 n)
  show ?case
  proof (cases "n < 10")
    case True
    then show ?thesis using digit_char_in_digits[of n] by (subst str_nat.simps) simp
  next
    case False
    have "n mod 10 < 10" by simp
    then have "digit_char (n mod 10) \<in> set ''0123456789''" by (rule digit_char_in_digits)
    with False 1 show ?thesis by (subst str_nat.simps) simp
  qed
qed

lemma str_nat_no_bracket: "CHR '']'' \<notin> set (str_nat n)"
  using str_nat_digits[of n] by auto

lemma str_nat_inj: "str_nat n = str_nat m \<Longrightarrow> n = m"
proof (induction n arbitrary: m rule: str_nat.induct)
  case (1 n)
  show ?case
  proof (cases "n < 10")
    case n: True
    show ?thesis
    proof (cases "m < 10")
      case True
      with n "1.prems" have "digit_char n = digit_char m"
        by (simp add: str_nat.simps[of n] str_nat.simps[of m])
      with n True show ?thesis by (rule digit_char_inj)
    next
      case False
      then have "length (str_nat m) \<ge> 2"
        using str_nat_nonempty[of "m div 10"]
        by (subst str_nat.simps) (cases "str_nat (m div 10)", auto)
      moreover have "length (str_nat n) = 1" using n by (subst str_nat.simps) simp
      ultimately show ?thesis using "1.prems" by simp
    qed
  next
    case n: False
    show ?thesis
    proof (cases "m < 10")
      case True
      have "length (str_nat n) \<ge> 2"
        using str_nat_nonempty[of "n div 10"] n
        by (subst str_nat.simps) (cases "str_nat (n div 10)", auto)
      moreover have "length (str_nat m) = 1" using True by (subst str_nat.simps) simp
      ultimately show ?thesis using "1.prems" by simp
    next
      case False
      with n "1.prems" have "str_nat (n div 10) @ [digit_char (n mod 10)] =
                             str_nat (m div 10) @ [digit_char (m mod 10)]"
        by (simp add: str_nat.simps[of n] str_nat.simps[of m])
      then have a: "str_nat (n div 10) = str_nat (m div 10)"
        and b: "digit_char (n mod 10) = digit_char (m mod 10)" by simp_all
      from n a have "n div 10 = m div 10" by (intro "1.IH") simp_all
      moreover have "n mod 10 = m mod 10"
        by (rule digit_char_inj[OF _ _ b]) simp_all
      ultimately show ?thesis by (metis div_mult_mod_eq)
    qed
  qed
qed

lemma prefix_up_to_delimiter:
  "d \<notin> set xs \<Longrightarrow> d \<notin> set ys \<Longrightarrow> prefix (xs @ d # a) (ys @ d # b) \<Longrightarrow> xs = ys"
proof (induction xs arbitrary: ys)
  case Nil
  then show ?case by (cases ys) auto
next
  case (Cons x xs)
  then show ?case by (cases ys) auto
qed

lemma citation_prefix_unique:
  "prefix (citation_prefix j) (citation_prefix i @ rest) \<longleftrightarrow> j = i"
proof
  assume "prefix (citation_prefix j) (citation_prefix i @ rest)"
  then have "prefix (str_nat j @ CHR '']'' # []) (str_nat i @ CHR '']'' # rest)"
    by (simp add: citation_prefix_def)
  then have "str_nat j = str_nat i"
    using str_nat_no_bracket by (intro prefix_up_to_delimiter)
  then show "j = i" by (rule str_nat_inj)
next
  assume "j = i"
  then show "prefix (citation_prefix j) (citation_prefix i @ rest)" by simp
qed

lemma summary_line_prefix:
  "\<exists>rest. summary_line sh fmt (idx, c) = citation_prefix idx @ rest"
  by (simp add: summary_line_def Let_def split: option.splits)

lemma summary_line_label:
  "prefix (citation_prefix j) (summary_line sh fmt (idx, c)) \<longleftrightarrow> j = idx"
proof -
  obtain rest where "summary_line sh fmt (idx, c) = citation_prefix idx @ rest"
    using summary_line_prefix by blast
  then show ?thesis by (simp only: citation_prefix_unique)
qed

text \<open>The answer is the header, the heading of the Sources section and its lines.\<close>

lemma generate_answer_sections:
  "generate_answer sh fmt q chunks =
     join newline (answer_header q) @ newline @ ''Sources:'' @ newline @
     join newline (summary_lines sh fmt chunks)"
proof -
  have ne: "answer_header q \<noteq> []" by (simp add: answer_header_def)
  have "generate_answer sh fmt q chunks =
          join newline ((answer_header q @ [''Sources:'']) @
                        [join newline (summary_lines sh fmt chunks)])"
    by (simp add: generate_answer_def)
  also have "\<dots> = join newline (answer_header q @ [''Sources:'']) @ newline @
                    join newline (summary_lines sh fmt chunks)"
    by (rule join_snoc) simp
  also have "join newline (answer_header q @ [''Sources:'']) =
               join newline (answer_header q) @ newline @ ''Sources:''"
    using ne by (rule join_snoc)
  finally show ?thesis by simp
qed

text \<open>
  What holds for every list of chunks with scores between 0 and 1:
  \<open>format_sources\<close> returns one source per chunk, in order, whose citation ids are
  \<open>1, \<dots>, N\<close> and equal the ranks; \<open>summary_lines\<close> has one entry per source,
  and entry \<open>i\<close> begins with the bracketed label of \<open>j\<close> exactly when \<open>j\<close> is
  the citation id of source \<open>i\<close>. This is a statement about the entries before they
  are joined into the answer: an entry may itself contain line breaks.
\<close>

lemma citation_ids_contiguous_entry_labels:
  assumes "chunks \<noteq> []" and "\<forall>c \<in> set chunks. 0 \<le> score c \<and> score c \<le> 1"
  shows "\<exists>srcs. format_sources chunks = Inr srcs \<and>
           map citation_id srcs = [1..<Suc (length chunks)] \<and>
           map rank srcs = map citation_id srcs \<and>
           map source_id srcs = map chunk_id chunks \<and>
           length (summary_lines sh fmt chunks) = length srcs \<and>
           (\<forall>i < length srcs. \<forall>j.
               prefix (citation_prefix j) (summary_lines sh fmt chunks ! i) \<longleftrightarrow>
               j = citation_id (srcs ! i)) \<and>
           generate_answer sh fmt q chunks =
             join newline (answer_header q) @ newline @ ''Sources:'' @ newline @
             join newline (summary_lines sh fmt chunks)"
proof -
  define mk :: "nat \<times> internal_chunk \<Rightarrow> source_chunk" where "mk = (\<lambda>(idx, chunk).
       \<lparr> source_id = chunk_id chunk, citation_id = idx, source_score = score chunk,
         source = source_name_of (metadata chunk), rank = idx,
         source_text = chunk_text chunk, source_metadata = metadata chunk \<rparr>)"
  define srcs where "srcs = map mk (enumerate 1 chunks)"
  have fs: "format_sources chunks = Inr srcs"
    unfolding srcs_def mk_def using assms(2) by (rule format_sources_ok)
  have cid: "citation_id \<circ> mk = fst" and rk: "rank \<circ> mk = fst"
    and sid: "source_id \<circ> mk = chunk_id \<circ> snd"
    by (auto simp: mk_def fun_eq_iff)
  have ids: "map citation_id srcs = [1..<Suc (length chunks)]"
    by (simp add: srcs_def cid map_fst_enumerate)
  have ranks: "map rank srcs = map citation_id srcs"
    by (simp add: srcs_def cid rk)
  have "map source_id srcs = map (chunk_id \<circ> snd) (enumerate 1 chunks)"
    by (simp add: srcs_def sid)
  also have "\<dots> = map chunk_id (map snd (enumerate 1 chunks))" by (simp only: map_map)
  also have "\<dots> = map chunk_id chunks" by (simp only: map_snd_enumerate)
  finally have sids: "map source_id srcs = map chunk_id chunks" .
  have len: "length (summary_lines sh fmt chunks) = length srcs"
    by (simp add: summary_lines_def srcs_def)
  have lab: "prefix (citation_prefix j) (summary_lines sh fmt chunks ! i) \<longleftrightarrow>
               j = citation_id (srcs ! i)" if "i < length srcs" for i j
  proof -
    from that have i: "i < length chunks" by (simp add: srcs_def)
    then have "summary_lines sh fmt chunks ! i = summary_line sh fmt (1 + i, chunks ! i)"
      by (simp add: summary_lines_def nth_enumerate_eq)
    moreover from i have "citation_id (srcs ! i) = 1 + i"
      by (simp add: srcs_def nth_enumerate_eq mk_def)
    ultimately show ?thesis by (simp only: summary_line_label)
  qed
  from fs ids ranks sids len lab generate_answer_sections[of sh fmt q chunks]
  show ?thesis by blast
qed

text \<open>Two selected chunks: the labels \<open>[1]\<close> and \<open>[2]\<close>, the first with a source name.\<close>

lemma two_chunk_summary:
  "summary_lines cut_shorten plain_fmt [short_chunk, threshold_chunk] =
     [''[1] (guide.md) short'', ''[2] edge'']"
  by (simp add: summary_lines_def summary_line_def citation_prefix_def str_nat.simps
      digit_char_def source_name_of_def short_chunk_def threshold_chunk_def cut_shorten_def)

lemma two_chunk_citations:
  "(\<exists>srcs. format_sources [short_chunk, threshold_chunk] = Inr srcs \<and>
      map citation_id srcs = [1, 2] \<and> map rank srcs = [1, 2] \<and>
      map source_id srcs = [''b'', ''t'']) \<and>
   summary_lines cut_shorten plain_fmt [short_chunk, threshold_chunk] =
     [''[1] (guide.md) short'', ''[2] edge'']"
proof -
  have h1: "[short_chunk, threshold_chunk] \<noteq> []" by simp
  have h2: "\<forall>c \<in> set [short_chunk, threshold_chunk]. 0 \<le> score c \<and> score c \<le> 1"
    by (simp add: short_chunk_def threshold_chunk_def)
  have u: "[1..<Suc (length [short_chunk, threshold_chunk])] = [1, 2]"
    by (simp add: upt_rec)
  have c: "map chunk_id [short_chunk, threshold_chunk] = [''b'', ''t'']"
    by (simp add: short_chunk_def threshold_chunk_def)
  from citation_ids_contiguous_entry_labels[OF h1 h2, of cut_shorten plain_fmt "[]"]
  obtain srcs where "format_sources [short_chunk, threshold_chunk] = Inr srcs"
    and "map citation_id srcs = [1..<Suc (length [short_chunk, threshold_chunk])]"
    and "map rank srcs = map citation_id srcs"
    and "map source_id srcs = map chunk_id [short_chunk, threshold_chunk]"
    by blast
  then have "\<exists>srcs. format_sources [short_chunk, threshold_chunk] = Inr srcs \<and>
      map citation_id srcs = [1, 2] \<and> map rank srcs = [1, 2] \<and>
      map source_id srcs = [''b'', ''t'']"
    by (simp only: u c) simp
  with two_chunk_summary show ?thesis by simp
qed

text \<open>
  Claim C2 on a concrete run. The store returns one document whose source name contains
  a line break followed by \<open>[2] (y\<close>. The source list has the single citation id 1,
  yet the Sources section of the composed answer has two lines, and its second line
  begins with the label \<open>[2]\<close>, the citation id of no source. The text of a chunk
  loses its line breaks before it is printed; the source name is printed as it is.
\<close>

theorem line_break_in_source_name_prints_unmatched_citation:
  "answer_question cut_shorten plain_fmt default_settings
     (recording_collection line_break_store) [] plain_request =
     (Inr \<lparr> answer = generate_answer cut_shorten plain_fmt ''why?'' [line_break_chunk],
             sources = [\<lparr> source_id = ''c'', citation_id = 1, source_score = 1,
                          source = Some (MStr line_break_name), rank = 1,
                          source_text = ''t'',
                          source_metadata = metadata line_break_chunk \<rparr>] \<rparr>,
      [(''why?'', 8)]) \<and>
   generate_answer cut_shorten plain_fmt ''why?'' [line_break_chunk] =
     join newline (answer_header ''why?'') @ newline @ ''Sources:'' @ newline @
     ''[1] (x)'' @ newline @ ''[2] (y) t'' \<and>
   prefix (citation_prefix 2) ''[2] (y) t''"
proof -
  have raw: "chunks_of_raw line_break_raw = Inr [line_break_chunk]"
    by (simp add: chunks_of_raw_def line_break_raw_def get_first_def make_chunks_def
        make_chunk_def similarity_def line_break_chunk_def)
  have ss: "similarity_search default_settings (recording_collection line_break_store) []
              ''why?'' 8 = (chunks_of_raw line_break_raw, [(''why?'', 8)])"
    by (simp add: similarity_search_def Let_def recording_collection_def line_break_store_def
        default_settings_def)
  have sel: "select_chunks default_settings [line_break_chunk] 8 = [line_break_chunk]"
    by (simp add: select_chunks_def default_settings_def filter_by_score_def
        sort_by_score_def line_break_chunk_def)
  have q: "strip (request_question plain_request) = ''why?''"
    by (simp add: strip_def is_space_def plain_request_def)
  have m: "resolve_max_sources default_settings plain_request = 8"
    by (simp add: resolve_max_sources_def plain_request_def default_settings_def)
  have k: "retrieval_default_top_k default_settings = 8" by (simp add: default_settings_def)
  have fs: "format_sources [line_break_chunk] =
              Inr [\<lparr> source_id = ''c'', citation_id = 1, source_score = 1,
                     source = Some (MStr line_break_name), rank = 1,
                     source_text = ''t'',
                     source_metadata = metadata line_break_chunk \<rparr>]"
    by (simp add: format_sources_def SourceChunk_def source_name_of_def
        line_break_chunk_def line_break_name_def)
  have a: "answer_question cut_shorten plain_fmt default_settings
     (recording_collection line_break_store) [] plain_request =
     (Inr \<lparr> answer = generate_answer cut_shorten plain_fmt ''why?'' [line_break_chunk],
             sources = [\<lparr> source_id = ''c'', citation_id = 1, source_score = 1,
                          source = Some (MStr line_break_name), rank = 1,
                          source_text = ''t'',
                          source_metadata = metadata line_break_chunk \<rparr>] \<rparr>,
      [(''why?'', 8)])"
    by (simp add: answer_question_def Let_def q m k ss raw sel fs)
  have lines: "summary_lines cut_shorten plain_fmt [line_break_chunk] =
                 [''[1] (x)'' @ newline @ ''[2] (y) t'']"
    by (simp add: summary_lines_def summary_line_def citation_prefix_def str_nat.simps
        digit_char_def source_name_of_def line_break_chunk_def line_break_name_def
        cut_shorten_def newline_def)
  have g: "generate_answer cut_shorten plain_fmt ''why?'' [line_break_chunk] =
     join newline (answer_header ''why?'') @ newline @ ''Sources:'' @ newline @
     ''[1] (x)'' @ newline @ ''[2] (y) t''"
    by (simp only: generate_answer_sections lines join.simps)
  have p: "prefix (citation_prefix 2) ''[2] (y) t''"
    by (simp add: citation_prefix_def str_nat.simps digit_char_def)
  from a g p show ?thesis by (intro conjI)
qed

end
